theory Spec2Isabelle
  imports Complex_Main
begin

section \<open>The memory system of \<^verbatim>\<open>core/corememory_system.py\<close>\<close>

text \<open>
  A Python \<^verbatim>\<open>str\<close> is a sequence of characters and \<^verbatim>\<open>len\<close> counts them. The chunker
  only slices and measures its text, so it is modelled over lists of any element type;
  Python's unbounded \<^verbatim>\<open>int\<close> is \<^typ>\<open>int\<close>.
\<close>

subsection \<open>Slicing\<close>

text \<open>
  \<^verbatim>\<open>xs[i:j]\<close> for integers \<^verbatim>\<open>i\<close>, \<^verbatim>\<open>j\<close>: a negative bound counts from the end, every bound
  is clamped to \<^verbatim>\<open>0 .. len(xs)\<close>, and the slice is empty when the upper bound is not above
  the lower one. Slicing never raises.
\<close>

definition py_index :: "nat \<Rightarrow> int \<Rightarrow> nat" where
  "py_index n i = (if i < 0 then nat (max (i + int n) 0) else nat (min i (int n)))"

definition py_slice :: "'a list \<Rightarrow> int \<Rightarrow> int \<Rightarrow> 'a list" where
  "py_slice xs i j =
     take (py_index (length xs) j - py_index (length xs) i) (drop (py_index (length xs) i) xs)"

subsection \<open>Text chunking\<close>

text \<open>
  The \<^verbatim>\<open>while\<close> loop of \<^verbatim>\<open>chunk_text\<close>, with its two \<^verbatim>\<open>break\<close>s: one when the chunk reaches
  the end of the text, one (after a printed warning) when the step
  \<^verbatim>\<open>chunk_size - chunk_overlap\<close> is not positive. Console output is not part of the model.
\<close>

function chunk_loop :: "'a list \<Rightarrow> int \<Rightarrow> int \<Rightarrow> int \<Rightarrow> 'a list list \<Rightarrow> 'a list list" where
  "chunk_loop text chunk_size chunk_overlap start_index chunks =
     (if start_index < int (length text) then
        (let end_index = min (start_index + chunk_size) (int (length text));
             chunks' = chunks @ [py_slice text start_index end_index]
         in if end_index = int (length text) then chunks'
            else (let start_index' = start_index + (chunk_size - chunk_overlap)
                  in if chunk_size - chunk_overlap \<le> 0 then chunks'
                     else chunk_loop text chunk_size chunk_overlap start_index' chunks'))
      else chunks)"
  by pat_completeness auto
termination
  by (relation "measure (\<lambda>(text, chunk_size, chunk_overlap, start_index, chunks).
        nat (int (length text) - start_index))") auto

definition chunk_text :: "'a list \<Rightarrow> int \<Rightarrow> int \<Rightarrow> 'a list list" where
  "chunk_text text chunk_size chunk_overlap =
     (if text = [] then [] else chunk_loop text chunk_size chunk_overlap 0 [])"

text \<open>
  Two notions used to state properties of the chunker. \<open>chunks_from\<close> lists the chunks the
  loop still appends when it stands at \<open>start_index\<close> (the loop without its accumulator);
  \<open>reassemble\<close> concatenates chunks after removing the leading \<open>overlap\<close> characters of
  every chunk but the first, which has no overlap in front of it.
\<close>

function chunks_from :: "'a list \<Rightarrow> int \<Rightarrow> int \<Rightarrow> int \<Rightarrow> 'a list list" where
  "chunks_from tx s ov st =
     (if st < int (length tx) then
        py_slice tx st (min (st + s) (int (length tx))) #
          (if min (st + s) (int (length tx)) = int (length tx) \<or> s - ov \<le> 0 then []
           else chunks_from tx s ov (st + (s - ov)))
      else [])"
  by pat_completeness auto
termination
  by (relation "measure (\<lambda>(tx, s, ov, st). nat (int (length tx) - st))") auto

fun reassemble :: "nat \<Rightarrow> 'a list list \<Rightarrow> 'a list" where
  "reassemble ov [] = []"
| "reassemble ov (c # cs) = c @ concat (map (drop ov) cs)"

subsection \<open>Values, the outside world and the program state\<close>

text \<open>
  From here on texts are \<^typ>\<open>string\<close>s, one \<^typ>\<open>char\<close> per Python character. A metadata
  dictionary maps string keys to strings or integers; it is kept as the association list
  of the dict literal. An embedding vector is opaque to the program: its type is the
  parameter \<open>'v\<close>.
\<close>

datatype meta_value = MStr string | MInt int

type_synonym metadata = "(string \<times> meta_value) list"

record 'v stored_record =
  rec_embedding :: 'v
  rec_document :: string
  rec_metadata :: metadata

text \<open>The contents of the vector store collection: records by id.\<close>

type_synonym 'v store = "string \<Rightarrow> 'v stored_record option"

text \<open>
  The four parallel lists handed to \<^verbatim>\<open>collection.add\<close>:
  embeddings, documents, metadatas, ids.
\<close>

type_synonym 'v batch = "'v list \<times> string list \<times> metadata list \<times> string list"

datatype exn = FileNotFoundError | IndexError | OtherException

text \<open>
  The raw result of \<^verbatim>\<open>collection.query\<close>: for each of its keys a list with one inner list
  per query embedding, or \<^verbatim>\<open>None\<close>. Distances are floating-point numbers, taken here as
  reals.
\<close>

record query_result =
  res_ids :: "string list list option"
  res_distances :: "real list list option"
  res_documents :: "string list list option"
  res_metadatas :: "metadata list list option"

record retrieved =
  r_id :: string
  r_text_chunk :: string
  r_metadata :: metadata
  r_similarity_score :: "real option"

text \<open>
  Everything the module calls but does not define is a field of the world: the
  built-ins of Python's \<^verbatim>\<open>str\<close> and \<^verbatim>\<open>os.path\<close>, the file system, the \<^verbatim>\<open>python-docx\<close>
  parser, the OpenAI client, the system clock and the failures of the vector store.
  A call that can raise returns a sum, \<open>Inl\<close> the exception.
\<close>

record 'v world =
  splitext :: "string \<Rightarrow> string \<times> string"
  basename :: "string \<Rightarrow> string"
  lower :: "string \<Rightarrow> string"
  isalnum :: "char \<Rightarrow> bool"
  open_read :: "string \<Rightarrow> exn + string"
  docx_paragraphs :: "string \<Rightarrow> exn + string list"
  api_key :: "string option"
  embeddings_create :: "string \<Rightarrow> exn + 'v"
  now_strftime :: "nat \<Rightarrow> string \<Rightarrow> string"
  add_raises :: "'v batch \<Rightarrow> bool"
  collection_query ::
    "'v store \<Rightarrow> 'v \<Rightarrow> int \<Rightarrow> metadata option \<Rightarrow> exn + query_result option"

text \<open>
  \<open>now_strftime w k fmt\<close> is \<^verbatim>\<open>datetime.datetime.now().strftime(fmt)\<close> at the \<open>k\<close>-th
  reading of the clock. The state holds the module-level \<^verbatim>\<open>collection\<close> (\<open>None\<close> when its
  initialisation failed) and a trace of the effects: the texts sent to the embedding
  endpoint, the batches passed to \<^verbatim>\<open>collection.add\<close>, and the number of clock readings.
\<close>

record 'v state =
  collection :: "'v store option"
  embed_requests :: "string list"
  add_log :: "'v batch list"
  clock_reads :: nat

subsection \<open>The vector store\<close>

text \<open>
  Modelled from the spec: \<^verbatim>\<open>collection.add\<close> is code of the vector database, which is not
  part of the repository. The specification describes the store's write as a batched
  upsert of \<open>(id, vector, text, metadata)\<close> tuples: each tuple of the batch, in order, is
  stored under its id, replacing a record already stored under that id.
\<close>

definition upsert :: "'v store \<Rightarrow> 'v batch \<Rightarrow> 'v store" where
  "upsert c b =
     (case b of (embeddings, documents, metadatas, ids) \<Rightarrow>
        fold (\<lambda>(i, e, d, m) c'. c'(i \<mapsto>
                \<lparr>rec_embedding = e, rec_document = d, rec_metadata = m\<rparr>))
             (zip ids (zip embeddings (zip documents metadatas))) c)"

definition collection_add :: "'v world \<Rightarrow> 'v store \<Rightarrow> 'v batch \<Rightarrow> exn + 'v store" where
  "collection_add w c b = (if add_raises w b then Inl OtherException else Inr (upsert c b))"

subsection \<open>Embedding requests (\<^verbatim>\<open>core/llm_interface.py\<close>)\<close>

text \<open>
  \<^verbatim>\<open>get_openai_embedding\<close> returns \<^verbatim>\<open>None\<close> without a request when no API key is configured;
  otherwise it makes one request and turns every exception into \<^verbatim>\<open>None\<close>.
\<close>

definition get_openai_embedding :: "'v world \<Rightarrow> string \<Rightarrow> 'v state \<Rightarrow> 'v option \<times> 'v state" where
  "get_openai_embedding w text_chunk st =
     (if api_key w = None \<or> api_key w = Some [] then (None, st)
      else (case embeddings_create w text_chunk of
              Inr embedding \<Rightarrow> Some embedding
            | Inl e \<Rightarrow> None,
            st\<lparr>embed_requests := embed_requests st @ [text_chunk]\<rparr>))"

subsection \<open>Document loaders\<close>

fun join :: "string \<Rightarrow> string list \<Rightarrow> string" where
  "join sep [] = []"
| "join sep [x] = x"
| "join sep (x # y # ys) = x @ sep @ join sep (y # ys)"

definition load_text_file :: "'v world \<Rightarrow> string \<Rightarrow> string option" where
  "load_text_file w file_path =
     (case open_read w file_path of
        Inr content \<Rightarrow> Some content
      | Inl FileNotFoundError \<Rightarrow> None
      | Inl e \<Rightarrow> None)"

definition load_docx_file :: "'v world \<Rightarrow> string \<Rightarrow> string option" where
  "load_docx_file w file_path =
     (case docx_paragraphs w file_path of
        Inr paragraphs \<Rightarrow> Some (join ''\<newline>'' paragraphs)
      | Inl FileNotFoundError \<Rightarrow> None
      | Inl e \<Rightarrow> None)"

subsection \<open>Ingestion\<close>

text \<open>\<^verbatim>\<open>str(n)\<close> for an integer: its decimal digits, with a sign when negative.\<close>

fun str_nat :: "nat \<Rightarrow> string" where
  "str_nat n =
     (if n < 10 then [char_of (48 + n)] else str_nat (n div 10) @ [char_of (48 + n mod 10)])"

definition str_int :: "int \<Rightarrow> string" where
  "str_int i = (if i < 0 then CHR ''-'' # str_nat (nat (- i)) else str_nat (nat i))"

text \<open>
  The dispatch of \<^verbatim>\<open>ingest_document\<close> on the file extension: \<open>None\<close> for an unsupported
  extension, otherwise the result of the loader.
\<close>

definition load_document :: "'v world \<Rightarrow> string \<Rightarrow> string option option" where
  "load_document w file_path =
     (let file_extension = snd (splitext w file_path)
      in if lower w file_extension = ''.txt'' \<or> lower w file_extension = ''.yaml''
         then Some (load_text_file w file_path)
         else if lower w file_extension = ''.docx'' then Some (load_docx_file w file_path)
         else None)"

text \<open>
  The \<^verbatim>\<open>for i, chunk in enumerate(chunks)\<close> loop: \<open>i\<close> is the index of the first chunk of
  the list, the four lists are the accumulators \<^verbatim>\<open>embeddings_to_add\<close>,
  \<^verbatim>\<open>documents_to_add\<close>, \<^verbatim>\<open>metadatas_to_add\<close> and \<^verbatim>\<open>ids_to_add\<close>.
\<close>

fun embed_chunks ::
  "'v world \<Rightarrow> string \<Rightarrow> string \<Rightarrow> string \<Rightarrow> nat \<Rightarrow> string list \<Rightarrow> 'v batch \<times> 'v state
     \<Rightarrow> 'v batch \<times> 'v state" where
  "embed_chunks w file_name document_title content_type i [] acc = acc"
| "embed_chunks w file_name document_title content_type i (chunk # rest)
       ((embeddings_to_add, documents_to_add, metadatas_to_add, ids_to_add), st) =
     (let chunk_sequence_id = int i + 1;
          (embedding_vector, st') = get_openai_embedding w chunk st
      in case embedding_vector of
           None \<Rightarrow>
             embed_chunks w file_name document_title content_type (Suc i) rest
               ((embeddings_to_add, documents_to_add, metadatas_to_add, ids_to_add), st')
         | Some v \<Rightarrow>
             (let metadata =
                    [(''source_file_name'', MStr file_name),
                     (''document_title'', MStr document_title),
                     (''content_type'', MStr content_type),
                     (''chunk_sequence_id'', MInt chunk_sequence_id),
                     (''original_text_preview'', MStr (py_slice chunk 0 200 @ ''...''))];
                  sane_title = map (\<lambda>c. if isalnum w c then c else CHR ''_'') document_title
              in embed_chunks w file_name document_title content_type (Suc i) rest
                   ((embeddings_to_add @ [v], documents_to_add @ [chunk],
                     metadatas_to_add @ [metadata],
                     ids_to_add @ [sane_title @ ''_chunk_'' @ str_int chunk_sequence_id]),
                    st')))"

text \<open>
  \<^verbatim>\<open>ingest_document\<close>. The first component of the result is the value returned to the
  caller: every \<^verbatim>\<open>return\<close> of the function is bare and its end is reached without one, so
  it is \<^verbatim>\<open>None\<close> on every path. The exceptions of the loaders, of the embedding request and
  of \<^verbatim>\<open>collection.add\<close> are all caught where they occur, so the function has no raising
  path.
\<close>

definition ingest_document ::
  "'v world \<Rightarrow> 'v state \<Rightarrow> string \<Rightarrow> string \<Rightarrow> string \<Rightarrow> int option \<times> 'v state" where
  "ingest_document w st file_path document_title content_type =
     (case collection st of
        None \<Rightarrow> (None, st)
      | Some c \<Rightarrow>
          (let file_name = basename w file_path
           in case load_document w file_path of
                None \<Rightarrow> (None, st)
              | Some None \<Rightarrow> (None, st)
              | Some (Some text_content) \<Rightarrow>
                  if text_content = [] then (None, st)
                  else (let chunks = chunk_text text_content 1200 150
                        in if chunks = [] then (None, st)
                           else (case embed_chunks w file_name document_title content_type 0
                                        chunks (([], [], [], []), st) of
                                   ((embeddings_to_add, documents_to_add, metadatas_to_add,
                                     ids_to_add), st') \<Rightarrow>
                                     if documents_to_add \<noteq> [] then
                                       (let b = (embeddings_to_add, documents_to_add,
                                                 metadatas_to_add, ids_to_add);
                                            st'' = st'\<lparr>add_log := add_log st' @ [b]\<rparr>
                                        in case collection_add w c b of
                                             Inr c' \<Rightarrow> (None, st''\<lparr>collection := Some c'\<rparr>)
                                           | Inl e \<Rightarrow> (None, st''))
                                     else (None, st')))))"

subsection \<open>Retrieval\<close>

text \<open>
  \<^verbatim>\<open>xs[i]\<close> for \<open>i\<close> from a \<^verbatim>\<open>range\<close>: an index past the end raises \<^verbatim>\<open>IndexError\<close>.
\<close>

definition py_nth :: "'a list \<Rightarrow> nat \<Rightarrow> exn + 'a" where
  "py_nth xs i = (if i < length xs then Inr (xs ! i) else Inl IndexError)"

text \<open>
  \<^verbatim>\<open>results[key][0][i] if results[key] and results[key][0] else default\<close>, for a key whose
  value is \<open>field\<close>.
\<close>

definition first_row_at :: "'a list list option \<Rightarrow> nat \<Rightarrow> 'a \<Rightarrow> exn + 'a" where
  "first_row_at field i dflt =
     (case field of
        None \<Rightarrow> Inr dflt
      | Some [] \<Rightarrow> Inr dflt
      | Some (row # rows) \<Rightarrow> if row = [] then Inr dflt else py_nth row i)"

text \<open>One round of the formatting loop, and the loop over \<^verbatim>\<open>range(len(results['ids'][0]))\<close>.\<close>

definition format_result :: "query_result \<Rightarrow> string list \<Rightarrow> nat \<Rightarrow> exn + retrieved" where
  "format_result results ids0 i =
     (case first_row_at (map_option (map (map Some)) (res_distances results)) i None of
        Inl e \<Rightarrow> Inl e
      | Inr distance \<Rightarrow>
          (case py_nth ids0 i of
             Inl e \<Rightarrow> Inl e
           | Inr ident \<Rightarrow>
               (case first_row_at (res_documents results) i ''N/A'' of
                  Inl e \<Rightarrow> Inl e
                | Inr doc \<Rightarrow>
                    (case first_row_at (res_metadatas results) i [] of
                       Inl e \<Rightarrow> Inl e
                     | Inr meta \<Rightarrow>
                         Inr \<lparr>r_id = ident, r_text_chunk = doc, r_metadata = meta,
                              r_similarity_score = map_option (\<lambda>d. 1 - d) distance\<rparr>))))"

fun format_results :: "query_result \<Rightarrow> string list \<Rightarrow> nat list \<Rightarrow> retrieved list
     \<Rightarrow> exn + retrieved list" where
  "format_results results ids0 [] formatted_results = Inr formatted_results"
| "format_results results ids0 (i # rest) formatted_results =
     (case format_result results ids0 i of
        Inl e \<Rightarrow> Inl e
      | Inr r \<Rightarrow> format_results results ids0 rest (formatted_results @ [r]))"

text \<open>
  \<^verbatim>\<open>retrieve_relevant_chunks\<close>. An exception of \<^verbatim>\<open>collection.query\<close> is caught; an
  \<^verbatim>\<open>IndexError\<close> of the formatting loop is not, and is the \<open>Inl\<close> result.
\<close>

definition retrieve_relevant_chunks ::
  "'v world \<Rightarrow> 'v state \<Rightarrow> string \<Rightarrow> metadata option \<Rightarrow> int
     \<Rightarrow> (exn + retrieved list) \<times> 'v state" where
  "retrieve_relevant_chunks w st query_text filters n_results =
     (case collection st of
        None \<Rightarrow> (Inr [], st)
      | Some c \<Rightarrow>
          if query_text = [] then (Inr [], st)
          else (case get_openai_embedding w query_text st of
                  (None, st') \<Rightarrow> (Inr [], st')
                | (Some query_embedding, st') \<Rightarrow>
                    (case collection_query w c query_embedding n_results filters of
                       Inl e \<Rightarrow> (Inr [], st')
                     | Inr None \<Rightarrow> (Inr [], st')
                     | Inr (Some results) \<Rightarrow>
                         (case res_ids results of
                            None \<Rightarrow> (Inr [], st')
                          | Some [] \<Rightarrow> (Inr [], st')
                          | Some (ids0 # rest) \<Rightarrow>
                              if length ids0 > 0
                              then (format_results results ids0 [0..<length ids0] [], st')
                              else (Inr [], st')))))"

subsection \<open>Interaction logging\<close>

text \<open>
  \<^verbatim>\<open>ingest_interaction_text\<close> reads the clock twice, once for the timestamp of the text and
  once for the title. It returns \<^verbatim>\<open>None\<close> on every path.
\<close>

definition ingest_interaction_text ::
  "'v world \<Rightarrow> 'v state \<Rightarrow> string \<Rightarrow> string \<Rightarrow> int option \<times> 'v state" where
  "ingest_interaction_text w st user_input ai_response =
     (case collection st of
        None \<Rightarrow> (None, st)
      | Some c \<Rightarrow>
          (let timestamp = now_strftime w (clock_reads st) ''%Y-%m-%d %H:%M:%S'';
               interaction_text =
                 ''Interaction at '' @ timestamp @ '':\<newline>User: '' @ user_input
                   @ ''\<newline>Aletheia: '' @ ai_response;
               doc_title =
                 ''Interaction_'' @ now_strftime w (clock_reads st + 1) ''%Y%m%d_%H%M%S'';
               content_type = ''LiveInteraction'';
               st1 = st\<lparr>clock_reads := clock_reads st + 2\<rparr>
           in case get_openai_embedding w interaction_text st1 of
                (None, st2) \<Rightarrow> (None, st2)
              | (Some embedding_vector, st2) \<Rightarrow>
                  (let metadata =
                         [(''source_file_name'', MStr ''LiveSession''),
                          (''document_title'', MStr doc_title),
                          (''content_type'', MStr content_type),
                          (''chunk_sequence_id'', MInt 1),
                          (''timestamp'', MStr timestamp)];
                       unique_id = doc_title @ ''_chunk_1'';
                       b = ([embedding_vector], [interaction_text], [metadata], [unique_id]);
                       st3 = st2\<lparr>add_log := add_log st2 @ [b]\<rparr>
                   in case collection_add w c b of
                        Inr c' \<Rightarrow> (None, st3\<lparr>collection := Some c'\<rparr>)
                      | Inl e \<Rightarrow> (None, st3))))"

subsection \<open>Notions used in the statements\<close>

text \<open>
  The value \<^verbatim>\<open>get_openai_embedding\<close> returns for a text (it does not depend on the state),
  and the requests it makes for a list of texts.
\<close>

definition embedding_of :: "'v world \<Rightarrow> string \<Rightarrow> 'v option" where
  "embedding_of w text_chunk =
     (if api_key w = None \<or> api_key w = Some [] then None
      else (case embeddings_create w text_chunk of Inr embedding \<Rightarrow> Some embedding | Inl e \<Rightarrow> None))"

definition requested :: "'v world \<Rightarrow> string list \<Rightarrow> string list" where
  "requested w texts = (if api_key w = None \<or> api_key w = Some [] then [] else texts)"

text \<open>
  The chunks of a list whose embedding succeeds, each with its sequence id (the first
  chunk of the list has sequence id \<open>i + 1\<close>) and its vector; and the id, the metadata,
  the batch and the stored record that \<^verbatim>\<open>ingest_document\<close> builds from them.
\<close>

fun embedded :: "'v world \<Rightarrow> nat \<Rightarrow> string list \<Rightarrow> (nat \<times> string \<times> 'v) list" where
  "embedded w i [] = []"
| "embedded w i (chunk # rest) =
     (case embedding_of w chunk of
        None \<Rightarrow> embedded w (Suc i) rest
      | Some v \<Rightarrow> (Suc i, chunk, v) # embedded w (Suc i) rest)"

definition chunk_id :: "'v world \<Rightarrow> string \<Rightarrow> nat \<Rightarrow> string" where
  "chunk_id w document_title k =
     map (\<lambda>c. if isalnum w c then c else CHR ''_'') document_title @ ''_chunk_'' @ str_int (int k)"

definition chunk_metadata :: "string \<Rightarrow> string \<Rightarrow> string \<Rightarrow> nat \<Rightarrow> string \<Rightarrow> metadata" where
  "chunk_metadata file_name document_title content_type k chunk =
     [(''source_file_name'', MStr file_name),
      (''document_title'', MStr document_title),
      (''content_type'', MStr content_type),
      (''chunk_sequence_id'', MInt (int k)),
      (''original_text_preview'', MStr (py_slice chunk 0 200 @ ''...''))]"

definition batch_of ::
  "'v world \<Rightarrow> string \<Rightarrow> string \<Rightarrow> string \<Rightarrow> (nat \<times> string \<times> 'v) list \<Rightarrow> 'v batch" where
  "batch_of w file_name document_title content_type S =
     (map (\<lambda>(k, chunk, v). v) S,
      map (\<lambda>(k, chunk, v). chunk) S,
      map (\<lambda>(k, chunk, v). chunk_metadata file_name document_title content_type k chunk) S,
      map (\<lambda>(k, chunk, v). chunk_id w document_title k) S)"


subsection \<open>A small world for evaluation\<close>

text \<open>
  A world with two readable files, a one-chunk note and a text of 3000 characters, and an
  embedding endpoint that fails on every text starting with \<^verbatim>\<open>b\<close> and otherwise returns
  the first two characters as a stand-in vector; a world whose endpoint always fails; a
  second world whose endpoint returns other vectors and whose store rejects the empty
  batch; and a state with an empty collection.
\<close>

definition demo_text :: string where
  "demo_text = replicate 1050 CHR ''a'' @ replicate 1050 CHR ''b'' @ replicate 900 CHR ''c''"

definition demo_world :: "string world" where
  "demo_world =
     \<lparr>splitext = (\<lambda>p. (take (length p - 4) p, drop (length p - 4) p)),
      basename = (\<lambda>p. p),
      lower = (\<lambda>s. s),
      isalnum = (\<lambda>c. c \<in> set ''ABCDEFGHIJKLMNOPQRSTUVWXYZabcdefghijklmnopqrstuvwxyz0123456789''),
      open_read = (\<lambda>p. if p = ''notes.txt'' then Inr ''hi there''
                         else if p = ''long.txt'' then Inr demo_text
                         else Inl FileNotFoundError),
      docx_paragraphs = (\<lambda>p. Inl FileNotFoundError),
      api_key = Some ''sk-demo'',
      embeddings_create = (\<lambda>t. if take 1 t = ''b'' then Inl OtherException else Inr (take 2 t)),
      now_strftime = (\<lambda>k fmt. if fmt = ''%Y-%m-%d %H:%M:%S'' then ''2025-01-02 03:04:05''
                               else ''20250102_030405''),
      add_raises = (\<lambda>b. False),
      collection_query = (\<lambda>c v n f. Inr None)\<rparr>"

definition failing_world :: "string world" where
  "failing_world = demo_world\<lparr>embeddings_create := (\<lambda>t. Inl OtherException)\<rparr>"


definition demo_state :: "string state" where
  "demo_state = \<lparr>collection = Some Map.empty, embed_requests = [], add_log = [], clock_reads = 0\<rparr>"

section \<open>Properties of the chunker\<close>

subsection \<open>The loop without its accumulator\<close>

declare chunk_loop.simps [simp del] chunks_from.simps [simp del] str_nat.simps [simp del]

lemma chunk_loop_chunks_from:
  "chunk_loop tx s ov st acc = acc @ chunks_from tx s ov st"
proof (induction tx s ov st acc rule: chunk_loop.induct)
  case (1 tx s ov st acc)
  show ?case
  proof (cases "st < int (length tx) \<and> min (st + s) (int (length tx)) \<noteq> int (length tx) \<and> \<not> s - ov \<le> 0")
    case True
    then have "chunk_loop tx s ov st acc =
        chunk_loop tx s ov (st + (s - ov)) (acc @ [py_slice tx st (min (st + s) (int (length tx)))])"
      by (subst chunk_loop.simps) (simp add: Let_def)
    also have "\<dots> = (acc @ [py_slice tx st (min (st + s) (int (length tx)))]) @ chunks_from tx s ov (st + (s - ov))"
      using True by (intro "1.IH") auto
    also have "\<dots> = acc @ chunks_from tx s ov st"
      using True by (subst (2) chunks_from.simps) simp
    finally show ?thesis .
  next
    case False
    then show ?thesis
      by (subst chunk_loop.simps, subst chunks_from.simps) (auto simp: Let_def)
  qed
qed

lemma py_slice_nonneg:
  "0 \<le> i \<Longrightarrow> i \<le> j \<Longrightarrow> j \<le> int (length xs) \<Longrightarrow> py_slice xs i j = take (nat (j - i)) (drop (nat i) xs)"
  by (auto simp: py_slice_def py_index_def nat_diff_distrib)

lemma concat_drop_reassemble:
  "cs \<noteq> [] \<Longrightarrow> ov \<le> length (hd cs) \<Longrightarrow> concat (map (drop ov) cs) = drop ov (reassemble ov cs)"
  by (cases cs) auto

lemma chunks_from_reassemble:
  "0 \<le> ov \<Longrightarrow> ov < s \<Longrightarrow> 0 \<le> st \<Longrightarrow> st < int (length tx) \<Longrightarrow>
     reassemble (nat ov) (chunks_from tx s ov st) = drop (nat st) tx
     \<and> chunks_from tx s ov st \<noteq> []
     \<and> hd (chunks_from tx s ov st) = take (nat s) (drop (nat st) tx)"
proof (induction tx s ov st rule: chunks_from.induct)
  case (1 tx s ov st)
  let ?n = "int (length tx)"
  show ?case
  proof (cases "st + s < ?n")
    case False
    with "1.prems" have eq: "chunks_from tx s ov st = [py_slice tx st ?n]"
      by (subst chunks_from.simps) (simp add: min_def)
    have "py_slice tx st ?n = drop (nat st) tx"
      using "1.prems" by (simp add: py_slice_nonneg)
    with eq False "1.prems" show ?thesis by simp
  next
    case True
    let ?st' = "st + (s - ov)"
    let ?R = "chunks_from tx s ov ?st'"
    from True "1.prems" have eq: "chunks_from tx s ov st = py_slice tx st (st + s) # ?R"
      by (subst chunks_from.simps) (simp add: min_def)
    have c: "py_slice tx st (st + s) = take (nat s) (drop (nat st) tx)"
      using "1.prems" True by (simp add: py_slice_nonneg)
    have IH: "reassemble (nat ov) ?R = drop (nat ?st') tx \<and> ?R \<noteq> [] \<and>
        hd ?R = take (nat s) (drop (nat ?st') tx)"
      using True "1.prems" by (intro "1.IH") (auto simp: min_def)
    have len: "nat ov \<le> length (hd ?R)"
    proof -
      have "nat ov \<le> nat s" using "1.prems" by simp
      moreover have "nat ov \<le> length tx - nat ?st'" using True "1.prems" by linarith
      ultimately show ?thesis using IH by simp
    qed
    have "concat (map (drop (nat ov)) ?R) = drop (nat ov) (drop (nat ?st') tx)"
      using IH len by (simp add: concat_drop_reassemble)
    also have "\<dots> = drop (nat s) (drop (nat st) tx)"
      using "1.prems" by (simp add: nat_add_distrib[symmetric] add.commute)
    finally have cc: "concat (map (drop (nat ov)) ?R) = drop (nat s) (drop (nat st) tx)" .
    have "reassemble (nat ov) (chunks_from tx s ov st) =
        take (nat s) (drop (nat st) tx) @ drop (nat s) (drop (nat st) tx)"
      by (simp only: eq reassemble.simps c cc)
    then have "reassemble (nat ov) (chunks_from tx s ov st) = drop (nat st) tx"
      by (simp only: append_take_drop_id)
    with eq c show ?thesis by simp
  qed
qed

lemma chunks_from_length:
  "0 \<le> ov \<Longrightarrow> ov < s \<Longrightarrow> 0 \<le> st \<Longrightarrow> st < int (length tx) \<Longrightarrow>
     int (length (chunks_from tx s ov st)) =
       (if int (length tx) - st \<le> s then 1
        else (int (length tx) - st - ov + (s - ov) - 1) div (s - ov))"
proof (induction tx s ov st rule: chunks_from.induct)
  case (1 tx s ov st)
  let ?n = "int (length tx)"
  let ?d = "s - ov"
  show ?case
  proof (cases "st + s < ?n")
    case False
    with "1.prems" have eq: "chunks_from tx s ov st = [py_slice tx st ?n]"
      by (subst chunks_from.simps) (simp add: min_def)
    with False show ?thesis by simp
  next
    case True
    let ?st' = "st + ?d"
    let ?m = "?n - st - ov - 1"
    from True "1.prems" have eq: "chunks_from tx s ov st = py_slice tx st (st + s) # chunks_from tx s ov ?st'"
      by (subst chunks_from.simps) (simp add: min_def)
    have IH: "int (length (chunks_from tx s ov ?st')) =
        (if ?n - ?st' \<le> s then 1 else (?n - ?st' - ov + ?d - 1) div ?d)"
      using True "1.prems" by (intro "1.IH") (auto simp: min_def)
    have dpos: "0 < ?d" using "1.prems" by simp
    have md: "?d \<le> ?m" using True by simp
    have step: "(?m + ?d) div ?d = ?m div ?d + 1"
      by (rule div_add_self2) (use dpos in simp)
    show ?thesis
    proof (cases "?n - ?st' \<le> s")
      case True
      then have "?m < 2 * ?d" by simp
      with md dpos have m1: "?m div ?d = 1"
        by (intro int_div_pos_eq[where r = "?m - ?d"]) auto
      have "int (length (chunks_from tx s ov st)) = 2" using eq IH True by simp
      also have "2 = (?m + ?d) div ?d" using step m1 by simp
      also have "?m + ?d = ?n - st - ov + ?d - 1" by simp
      finally show ?thesis using \<open>st + s < ?n\<close> by simp
    next
      case False
      have e: "?n - ?st' - ov + ?d - 1 = ?m" by simp
      from IH False have "int (length (chunks_from tx s ov ?st')) = (?n - ?st' - ov + ?d - 1) div ?d"
        by (simp only: if_False)
      then have "int (length (chunks_from tx s ov ?st')) = ?m div ?d"
        by (simp only: e)
      then have "int (length (chunks_from tx s ov st)) = ?m div ?d + 1" using eq by simp
      also have "\<dots> = (?m + ?d) div ?d" using step by simp
      also have "?m + ?d = ?n - st - ov + ?d - 1" by simp
      finally show ?thesis using \<open>st + s < ?n\<close> by simp
    qed
  qed
qed

lemma ceiling_div:
  assumes "0 < (d::int)"
  shows "\<lceil>real_of_int a / real_of_int d\<rceil> = (a + d - 1) div d"
proof -
  let ?z = "(a + d - 1) div d"
  have "d * ?z + (a + d - 1) mod d = a + d - 1" by simp
  moreover have "0 \<le> (a + d - 1) mod d" "(a + d - 1) mod d < d"
    using assms by simp_all
  ultimately have lo: "d * ?z - d < a" and hi: "a \<le> d * ?z"
    by linarith+
  have "real_of_int (d * ?z - d) < real_of_int a" using lo by (simp only: of_int_less_iff)
  then have "(real_of_int ?z - 1) * real_of_int d < real_of_int a"
    by (simp add: algebra_simps)
  then have 1: "real_of_int ?z - 1 < real_of_int a / real_of_int d"
    using assms by (simp add: pos_less_divide_eq)
  have "real_of_int a \<le> real_of_int (d * ?z)" using hi by (simp only: of_int_le_iff)
  then have "real_of_int a \<le> real_of_int ?z * real_of_int d"
    by (simp add: algebra_simps)
  then have 2: "real_of_int a / real_of_int d \<le> real_of_int ?z"
    using assms by (simp add: pos_divide_le_eq)
  from 1 2 show ?thesis by (rule ceiling_unique)
qed

lemma chunks_from_length_le:
  "0 \<le> st \<Longrightarrow> length (chunks_from tx s ov st) \<le> length tx - nat st"
proof (induction tx s ov st rule: chunks_from.induct)
  case (1 tx s ov st)
  show ?case
  proof (cases "st < int (length tx) \<and> min (st + s) (int (length tx)) \<noteq> int (length tx) \<and> \<not> s - ov \<le> 0")
    case True
    then have eq: "chunks_from tx s ov st = py_slice tx st (min (st + s) (int (length tx))) # chunks_from tx s ov (st + (s - ov))"
      by (subst chunks_from.simps) simp
    have "length (chunks_from tx s ov (st + (s - ov))) \<le> length tx - nat (st + (s - ov))"
      using True "1.prems" by (intro "1.IH") auto
    with True "1.prems" show ?thesis unfolding eq by (simp) linarith
  next
    case False
    then show ?thesis using "1.prems"
      by (subst chunks_from.simps) (auto)
  qed
qed

lemma chunks_from_misconfigured:
  "s \<le> ov \<Longrightarrow> chunks_from tx s ov st =
     (if st < int (length tx) then [py_slice tx st (min (st + s) (int (length tx)))] else [])"
  by (subst chunks_from.simps) simp


lemma chunk_text_chunks_from:
  "chunk_text tx s ov = (if tx = [] then [] else chunks_from tx s ov 0)"
  by (simp add: chunk_text_def chunk_loop_chunks_from)


subsection \<open>Empty and blank text\<close>

text \<open>
  Claim C8, as amended. Chunking yields the empty sequence exactly when the text is empty
  (\<^verbatim>\<open>if not text: return []\<close>). A blank text is not empty: it is chunked like any other
  text and yields at least one chunk.
\<close>

theorem chunk_text_empty_iff:
  "chunk_text tx s ov = [] \<longleftrightarrow> tx = []"
  by (simp add: chunk_text_chunks_from) (subst chunks_from.simps, simp)

text \<open>Two spaces, chunked with the default parameters, come back as one chunk.\<close>

theorem chunk_text_blank_counterexample:
  "chunk_text ''  '' 1200 150 = [''  '']"
  by (simp add: chunk_text_chunks_from chunks_from.simps py_slice_def py_index_def)

subsection \<open>Chunk size not above the overlap\<close>

text \<open>
  Claim C1, as amended. When \<open>chunk_size \<le> chunk_overlap\<close> the chunker raises nothing. It
  returns the empty sequence for the empty text; for any other text the loop runs once
  and the result is the single chunk \<^verbatim>\<open>text[0:min(chunk_size, len(text))]\<close>: either that
  chunk reaches the end of the text, or the guard on the step breaks the loop.
\<close>

theorem chunk_text_misconfigured:
  "s \<le> ov \<Longrightarrow>
     chunk_text tx s ov = (if tx = [] then [] else [py_slice tx 0 (min s (int (length tx)))])"
  by (simp add: chunk_text_chunks_from chunks_from_misconfigured)

theorem chunk_text_misconfigured_witness:
  "(2::int) \<le> 5 \<and> chunk_text ''abc'' 2 5 = [''ab'']"
  using chunk_text_misconfigured[of 2 5 "''abc''"]
  by (simp add: py_slice_def py_index_def)

text \<open>With size 1 and overlap 1 the text \<^verbatim>\<open>ab\<close> yields a chunk; nothing is raised.\<close>

theorem chunk_text_misconfigured_counterexample:
  "(1::int) \<le> 1 \<and> chunk_text ''ab'' 1 1 = [''a'']"
  by (simp add: chunk_text_chunks_from chunks_from.simps py_slice_def py_index_def)

subsection \<open>Reconstruction and the number of chunks\<close>

text \<open>
  Claim C2, as amended. For \<open>chunk_size > chunk_overlap \<ge> 0\<close>, concatenating the chunks
  with the leading overlap of every chunk after the first removed gives back the text,
  and the number of chunks is \<open>0\<close> for the empty text, the ceiling of
  \<open>(len(text) - overlap) / (size - overlap)\<close> when the text is longer than the overlap,
  and \<open>1\<close> for any other non-empty text.
\<close>

theorem chunk_text_reassemble_count:
  assumes "0 \<le> ov" "ov < s"
  shows "reassemble (nat ov) (chunk_text tx s ov) = tx \<and>
         int (length (chunk_text tx s ov)) =
           (if tx = [] then 0
            else if ov < int (length tx)
                 then \<lceil>real_of_int (int (length tx) - ov) / real_of_int (s - ov)\<rceil>
                 else 1)"
proof (cases "tx = []")
  case True
  then show ?thesis by (simp add: chunk_text_def)
next
  case False
  then have pos: "0 < int (length tx)" by simp
  have eq: "chunk_text tx s ov = chunks_from tx s ov 0"
    using False by (simp add: chunk_text_chunks_from)
  have r: "reassemble (nat ov) (chunks_from tx s ov 0) = tx"
    using chunks_from_reassemble[OF assms _ pos] by simp
  have l: "int (length (chunks_from tx s ov 0)) =
      (if int (length tx) \<le> s then 1 else (int (length tx) - ov + (s - ov) - 1) div (s - ov))"
    using chunks_from_length[OF assms _ pos] by simp
  have d: "0 < s - ov" using assms by simp
  have c: "\<lceil>real_of_int (int (length tx) - ov) / real_of_int (s - ov)\<rceil> =
      (int (length tx) - ov + (s - ov) - 1) div (s - ov)"
    by (rule ceiling_div[OF d])
  have "int (length (chunks_from tx s ov 0)) =
      (if ov < int (length tx)
       then \<lceil>real_of_int (int (length tx) - ov) / real_of_int (s - ov)\<rceil> else 1)"
  proof (cases "int (length tx) \<le> s")
    case True
    show ?thesis
    proof (cases "ov < int (length tx)")
      case True
      have one: "(int (length tx) - ov + (s - ov) - 1) div (s - ov) = 1"
        by (rule int_div_pos_eq[where r = "int (length tx) - ov - 1"])
           (use True \<open>int (length tx) \<le> s\<close> in auto)
      have "int (length (chunks_from tx s ov 0)) = 1"
        using l \<open>int (length tx) \<le> s\<close> by simp
      then show ?thesis unfolding c one using True by simp
    next
      case False
      then show ?thesis using l True by simp
    qed
  next
    case False
    then have "ov < int (length tx)" using assms by simp
    moreover have "int (length (chunks_from tx s ov 0)) =
        (int (length tx) - ov + (s - ov) - 1) div (s - ov)"
      using l False by simp
    ultimately show ?thesis unfolding c by simp
  qed
  then show ?thesis using False r eq by simp
qed

theorem chunk_text_reassemble_count_witness:
  "(0::int) \<le> 1 \<and> (1::int) < 4 \<and> chunk_text ''abcdefghij'' 4 1 = [''abcd'', ''defg'', ''ghij'']
   \<and> reassemble (nat 1) (chunk_text ''abcdefghij'' 4 1) = ''abcdefghij''
   \<and> int (length (chunk_text ''abcdefghij'' 4 1)) = 3"
  using chunk_text_reassemble_count[of 1 4 "''abcdefghij''"]
  by (simp add: chunk_text_chunks_from chunks_from.simps py_slice_def py_index_def)

text \<open>The empty text is not longer than the overlap, and its number of chunks is not 1.\<close>

theorem chunk_text_count_counterexample:
  "(0::int) \<le> 1 \<and> (1::int) < 2 \<and> \<not> 1 < int (length ([]::string))
   \<and> length (chunk_text ([]::string) 2 1) \<noteq> 1"
  by (simp add: chunk_text_def)

subsection \<open>Termination\<close>

text \<open>
  Claim C10, as amended. The chunker is a total function: the loop's recursion is
  well-founded for all integers (the distance to the end of the text decreases), so it
  returns a list, of at most \<open>len(text)\<close> chunks. When \<open>chunk_size \<le> chunk_overlap\<close> and
  the text is non-empty and longer than \<open>chunk_size\<close>, the result is exactly one chunk,
  the slice \<^verbatim>\<open>text[0:chunk_size]\<close>: the first \<open>chunk_size\<close> characters when
  \<open>chunk_size \<ge> 0\<close>, and the text without its last \<open>- chunk_size\<close> characters when
  \<open>chunk_size\<close> is negative.
\<close>

theorem chunk_text_terminates:
  "length (chunk_text tx s ov) \<le> length tx \<and>
   (s \<le> ov \<and> tx \<noteq> [] \<and> s < int (length tx) \<longrightarrow>
      chunk_text tx s ov =
        [if 0 \<le> s then take (nat s) tx else take (length tx - nat (- s)) tx])"
proof
  show "length (chunk_text tx s ov) \<le> length tx"
    using chunks_from_length_le[of 0 tx s ov] by (simp add: chunk_text_chunks_from)
  show "s \<le> ov \<and> tx \<noteq> [] \<and> s < int (length tx) \<longrightarrow>
      chunk_text tx s ov =
        [if 0 \<le> s then take (nat s) tx else take (length tx - nat (- s)) tx]"
  proof
    assume a: "s \<le> ov \<and> tx \<noteq> [] \<and> s < int (length tx)"
    then have "chunk_text tx s ov = [py_slice tx 0 s]"
      by (simp add: chunk_text_chunks_from chunks_from_misconfigured min_def)
    moreover have "py_slice tx 0 s = (if 0 \<le> s then take (nat s) tx else take (length tx - nat (- s)) tx)"
      using a by (auto simp: py_slice_def py_index_def nat_diff_distrib nat_add_distrib intro!: arg_cong2[where f=take])
    ultimately show "chunk_text tx s ov =
        [if 0 \<le> s then take (nat s) tx else take (length tx - nat (- s)) tx]" by simp
  qed
qed

theorem chunk_text_terminates_witness:
  "(2::int) \<le> 2 \<and> ''abc'' \<noteq> [] \<and> 2 < int (length ''abc'')
   \<and> length (chunk_text ''abc'' 2 2) \<le> 3 \<and> chunk_text ''abc'' 2 2 = [''ab'']
   \<and> chunk_text ''abc'' (- 1) 0 = [''ab'']"
  using chunk_text_terminates[of "''abc''" 2 2] chunk_text_terminates[of "''abc''" "- 1" 0]
  by simp

text \<open>
  With size \<open>-1\<close> the one chunk of \<^verbatim>\<open>abc\<close> is \<^verbatim>\<open>ab\<close>, which is not its first
  \<open>min(size, len(text))\<close> characters.
\<close>

theorem chunk_text_negative_size_counterexample:
  "(- 1 :: int) \<le> 0 \<and> ''abc'' \<noteq> [] \<and> (- 1) < int (length ''abc'')
   \<and> chunk_text ''abc'' (- 1) 0 = [''ab'']
   \<and> chunk_text ''abc'' (- 1) 0 \<noteq> [take (nat (min (- 1) (int (length ''abc'')))) ''abc'']"
  by (simp add: chunk_text_chunks_from chunks_from.simps py_slice_def py_index_def)

section \<open>Properties of ingestion, retrieval and interaction logging\<close>

subsection \<open>The embedding loop\<close>

lemma get_openai_embedding_eq:
  "get_openai_embedding w t st =
     (embedding_of w t, st\<lparr>embed_requests := embed_requests st @ requested w [t]\<rparr>)"
  by (simp add: get_openai_embedding_def embedding_of_def requested_def)

lemma embed_chunks_eq:
  "embed_chunks w fn title ct i chunks ((es, ds, ms, ids), st) =
     ((es @ map (\<lambda>(k, chunk, v). v) (embedded w i chunks),
       ds @ map (\<lambda>(k, chunk, v). chunk) (embedded w i chunks),
       ms @ map (\<lambda>(k, chunk, v). chunk_metadata fn title ct k chunk) (embedded w i chunks),
       ids @ map (\<lambda>(k, chunk, v). chunk_id w title k) (embedded w i chunks)),
      st\<lparr>embed_requests := embed_requests st @ requested w chunks\<rparr>)"
proof (induction chunks arbitrary: i es ds ms ids st)
  case Nil
  then show ?case by (simp add: requested_def)
next
  case (Cons chunk rest)
  show ?case
    by (cases "embedding_of w chunk")
       (simp_all add: get_openai_embedding_eq Cons.IH chunk_metadata_def chunk_id_def
          requested_def Let_def add.commute)
qed


lemma embedded_eq:
  "embedded w i chunks =
     map (\<lambda>j. (Suc (i + j), chunks ! j, the (embedding_of w (chunks ! j))))
       (filter (\<lambda>j. embedding_of w (chunks ! j) \<noteq> None) [0..<length chunks])"
proof (induction chunks arbitrary: i)
  case Nil
  then show ?case by simp
next
  case (Cons chunk rest)
  have upt: "[0..<length (chunk # rest)] = 0 # map Suc [0..<length rest]"
    by (simp add: upt_conv_Cons map_Suc_upt del: upt_Suc)
  show ?case
    unfolding upt
    by (cases "embedding_of w chunk") (simp_all add: Cons.IH filter_map o_def)
qed




subsection \<open>Decimal rendering and ids\<close>





subsection \<open>The store\<close>










subsection \<open>The effects of one ingestion\<close>

lemma chunk_text_Nil_iff: "chunk_text tx s ov = [] \<longleftrightarrow> tx = []"
  by (simp add: chunk_text_chunks_from) (subst chunks_from.simps, simp)

lemma ingest_document_eq:
  assumes "collection st = Some c" "load_document w p = Some (Some text_content)" "text_content \<noteq> []"
  shows "ingest_document w st p title ct =
     (None,
      let S = embedded w 0 (chunk_text text_content 1200 150);
          st' = st\<lparr>embed_requests := embed_requests st @ requested w (chunk_text text_content 1200 150)\<rparr>;
          b = batch_of w (basename w p) title ct S
      in if S = [] then st'
         else st'\<lparr>add_log := add_log st @ [b],
                  collection := Some (if add_raises w b then c else upsert c b)\<rparr>)"
  using assms
  by (simp add: ingest_document_def chunk_text_Nil_iff embed_chunks_eq collection_add_def
        batch_of_def Let_def)

lemma ingest_document_soft_fail:
  "collection st = None \<or> load_document w p = None \<or> load_document w p = Some None
     \<or> load_document w p = Some (Some []) \<Longrightarrow> ingest_document w st p title ct = (None, st)"
  by (auto simp: ingest_document_def split: option.splits)


lemma ingest_document_add_log:
  assumes "collection st = Some c" "load_document w p = Some (Some text_content)" "text_content \<noteq> []"
  shows "add_log (snd (ingest_document w st p title ct)) =
           add_log st @
             (if embedded w 0 (chunk_text text_content 1200 150) = [] then []
              else [batch_of w (basename w p) title ct (embedded w 0 (chunk_text text_content 1200 150))])"
  by (simp add: ingest_document_eq[OF assms] Let_def)








subsection \<open>Facts of the small world\<close>

lemma demo_collection: "collection demo_state = Some Map.empty"
  by (simp add: demo_state_def)

lemma demo_world_facts:
  "api_key demo_world = Some ''sk-demo''" "\<And>b. add_raises demo_world b = False"
  "\<And>p. basename demo_world p = p"
  by (simp_all add: demo_world_def)

lemma demo_state_facts: "embed_requests demo_state = []" "add_log demo_state = []"
  by (simp_all add: demo_state_def)

lemma demo_isalnum:
  "isalnum demo_world = (\<lambda>c. c \<in> set ''ABCDEFGHIJKLMNOPQRSTUVWXYZabcdefghijklmnopqrstuvwxyz0123456789'')"
  by (simp add: demo_world_def)

lemma demo_embedding_of:
  "embedding_of demo_world t = (if take 1 t = ''b'' then None else Some (take 2 t))"
  by (simp add: embedding_of_def demo_world_def)

lemma demo_load_missing: "load_document demo_world ''missing.txt'' = Some None"
  by (simp add: load_document_def demo_world_def load_text_file_def)

lemma demo_load_notes: "load_document demo_world ''notes.txt'' = Some (Some ''hi there'')"
  by (simp add: load_document_def demo_world_def load_text_file_def)

lemma demo_load_long: "load_document demo_world ''long.txt'' = Some (Some demo_text)"
  by (simp add: load_document_def demo_world_def load_text_file_def)

lemma demo_text_length: "length demo_text = 3000"
  by (simp add: demo_text_def)

lemma demo_text_nonempty: "demo_text \<noteq> []"
  using demo_text_length by auto

lemma demo_chunks_notes: "chunk_text ''hi there'' 1200 150 = [''hi there'']"
  by (simp add: chunk_text_def chunk_loop.simps py_slice_def py_index_def)

lemma demo_chunks_long:
  "chunk_text demo_text 1200 150 =
     [replicate 1050 CHR ''a'' @ replicate 150 CHR ''b'',
      replicate 1050 CHR ''b'' @ replicate 150 CHR ''c'',
      replicate 900 CHR ''c'']"
  apply (simp add: chunk_text_chunks_from chunks_from.simps py_slice_def py_index_def
      demo_text_length)
  apply (simp add: demo_text_def)
  done

lemma replicate_2: "replicate 2 x = [x, x]"
  by (simp add: numeral_2_eq_2)

lemma demo_embedded_long:
  "embedded demo_world 0 (chunk_text demo_text 1200 150) =
     [(1, replicate 1050 CHR ''a'' @ replicate 150 CHR ''b'', ''aa''),
      (3, replicate 900 CHR ''c'', ''cc'')]"
  by (simp add: demo_chunks_long demo_embedding_of replicate_2)

lemma char_of_digits:
  "char_of (48::nat) = CHR ''0''" "char_of (49::nat) = CHR ''1''" "char_of (50::nat) = CHR ''2''"
  "char_of (51::nat) = CHR ''3''" "char_of (52::nat) = CHR ''4''" "char_of (53::nat) = CHR ''5''"
  "char_of (54::nat) = CHR ''6''" "char_of (55::nat) = CHR ''7''" "char_of (56::nat) = CHR ''8''"
  "char_of (57::nat) = CHR ''9''"
  by (simp_all add: char_of_eq_iff)

lemma demo_chunk_id_1: "chunk_id demo_world ''My Doc!'' (Suc 0) = ''My_Doc__chunk_1''"
  by (simp add: chunk_id_def demo_world_def str_int_def str_nat.simps char_of_digits)


lemma demo_ingest_notes:
  "ingest_document demo_world demo_state ''notes.txt'' ''My Doc!'' ''ReferenceMaterial'' =
     (None, demo_state\<lparr>embed_requests := [''hi there''],
        add_log := [batch_of demo_world ''notes.txt'' ''My Doc!'' ''ReferenceMaterial''
                      [(Suc 0, ''hi there'', ''hi'')]],
        collection := Some (upsert Map.empty
           (batch_of demo_world ''notes.txt'' ''My Doc!'' ''ReferenceMaterial''
                      [(Suc 0, ''hi there'', ''hi'')]))\<rparr>)"
proof -
  have 1: "requested demo_world [''hi there''] = [''hi there'']"
    by (simp add: requested_def demo_world_def)
  have 2: "basename demo_world ''notes.txt'' = ''notes.txt''"
    "\<And>b. add_raises demo_world b = False"
    by (simp_all add: demo_world_def)
  have 3: "embed_requests demo_state = []" "add_log demo_state = []"
    by (simp_all add: demo_state_def)
  show ?thesis
    by (simp add: ingest_document_eq[OF demo_collection demo_load_notes] demo_chunks_notes
          demo_embedding_of 1 2 3 Let_def)
qed

lemma failing_embedding_of: "embedding_of failing_world t = None"
  by (simp add: embedding_of_def failing_world_def)




subsection \<open>Retrieval on an empty query\<close>

text \<open>
  Claim C7. For every world (so whatever the Embedding Provider would answer), every state,
  filter and \<open>n_results\<close>, retrieval on the empty query string returns the empty sequence
  and leaves the state as it was: no text is sent to the embedding endpoint.
\<close>

theorem retrieve_empty_query:
  "retrieve_relevant_chunks w st [] filters n_results = (Inr [], st)"
  by (simp add: retrieve_relevant_chunks_def split: option.splits)

subsection \<open>The value and the soft failures of ingestion\<close>

text \<open>
  Claim C4, as amended. \<^verbatim>\<open>ingest_document\<close> returns \<^verbatim>\<open>None\<close> for every file path, title and
  content type, in every world and state; it has no raising path. When the collection is
  not initialised, the extension is unsupported, the loader fails or yields the empty
  text, it leaves the state unchanged: no text is sent to the embedding endpoint and
  nothing is written to the store.
\<close>

theorem ingest_document_returns_None:
  "fst (ingest_document w st p title ct) = None \<and>
   (collection st = None \<or> load_document w p = None \<or> load_document w p = Some None
      \<or> load_document w p = Some (Some [])
    \<longrightarrow> snd (ingest_document w st p title ct) = st)"
proof
  show "fst (ingest_document w st p title ct) = None"
  proof (cases "collection st = None \<or> load_document w p = None \<or> load_document w p = Some None
     \<or> load_document w p = Some (Some [])")
    case True
    then show ?thesis by (simp only: ingest_document_soft_fail fst_conv)
  next
    case False
    then obtain c where c: "collection st = Some c" by auto
    from False obtain x where x: "load_document w p = Some x" by auto
    with False obtain tc where "x = Some tc" by auto
    with False c x have "collection st = Some c" "load_document w p = Some (Some tc)" "tc \<noteq> []"
      by auto
    then show ?thesis by (simp add: ingest_document_eq)
  qed
  show "collection st = None \<or> load_document w p = None \<or> load_document w p = Some None
      \<or> load_document w p = Some (Some [])
    \<longrightarrow> snd (ingest_document w st p title ct) = st"
    by (auto simp: ingest_document_soft_fail)
qed

theorem ingest_document_returns_None_witness:
  "open_read demo_world ''missing.txt'' = Inl FileNotFoundError
   \<and> load_document demo_world ''missing.txt'' = Some None
   \<and> fst (ingest_document demo_world demo_state ''missing.txt'' ''My Doc!'' ''ReferenceMaterial'') = None
   \<and> snd (ingest_document demo_world demo_state ''missing.txt'' ''My Doc!'' ''ReferenceMaterial'') = demo_state"
  using ingest_document_returns_None[of demo_world demo_state "''missing.txt''" "''My Doc!''" "''ReferenceMaterial''"]
  by (simp add: demo_load_missing) (simp add: demo_world_def)

text \<open>
  Ingesting the one-chunk note writes one record and returns \<^verbatim>\<open>None\<close>, not the count 1;
  ingesting a missing file returns \<^verbatim>\<open>None\<close>, not 0.
\<close>

theorem ingest_document_count_counterexample:
  "fst (ingest_document demo_world demo_state ''notes.txt'' ''My Doc!'' ''ReferenceMaterial'') = None
   \<and> map (\<lambda>(es, ds, ms, ids). ids)
        (add_log (snd (ingest_document demo_world demo_state ''notes.txt'' ''My Doc!'' ''ReferenceMaterial'')))
      = [[''My_Doc__chunk_1'']]
   \<and> dom (the (collection (snd (ingest_document demo_world demo_state ''notes.txt'' ''My Doc!''
              ''ReferenceMaterial'')))) = {''My_Doc__chunk_1''}
   \<and> fst (ingest_document demo_world demo_state ''missing.txt'' ''My Doc!'' ''ReferenceMaterial'') = None"
  by (simp add: demo_ingest_notes batch_of_def demo_chunk_id_1 upsert_def
        ingest_document_soft_fail demo_load_missing)

subsection \<open>A chunk whose embedding fails\<close>



subsection \<open>Record ids\<close>

text \<open>
  Claim C6. In the batch that an ingestion hands to the store, the id of a record is the
  document title with every character that is not alphanumeric replaced by an
  underscore, followed by \<^verbatim>\<open>_chunk_\<close> and the decimal 1-based index of the record's chunk
  among the chunks of the document; the record's text is that chunk and its metadata
  carries the same index as \<^verbatim>\<open>chunk_sequence_id\<close>.
\<close>

theorem ingest_document_ids:
  assumes "load_document w p = Some (Some text_content)"
    and "add_log (snd (ingest_document w st p title ct)) = add_log st @ [(es, ds, ms, ids)]"
    and "chunks = chunk_text text_content 1200 150"
    and "kept = filter (\<lambda>j. embedding_of w (chunks ! j) \<noteq> None) [0..<length chunks]"
  shows "ids = map (\<lambda>j. map (\<lambda>x. if isalnum w x then x else CHR ''_'') title @ ''_chunk_''
                        @ str_int (int j + 1)) kept
       \<and> ds = map (\<lambda>j. chunks ! j) kept
       \<and> map (\<lambda>m. map_of m ''chunk_sequence_id'') ms = map (\<lambda>j. Some (MInt (int j + 1))) kept"
proof -
  have run: "\<not> (collection st = None \<or> load_document w p = None \<or> load_document w p = Some None
     \<or> load_document w p = Some (Some []))"
  proof
    assume "collection st = None \<or> load_document w p = None \<or> load_document w p = Some None
     \<or> load_document w p = Some (Some [])"
    then have "ingest_document w st p title ct = (None, st)"
      by (rule ingest_document_soft_fail)
    with assms(2) show False by simp
  qed
  then obtain c where c: "collection st = Some c" by auto
  from run assms(1) have ne: "text_content \<noteq> []" by auto
  let ?S = "embedded w 0 chunks"
  from assms(2) have "(if ?S = [] then [] else [batch_of w (basename w p) title ct ?S])
      = [(es, ds, ms, ids)]"
    unfolding ingest_document_add_log[OF c assms(1) ne] assms(3)[symmetric] by simp
  then have b: "batch_of w (basename w p) title ct ?S = (es, ds, ms, ids)"
    by (simp split: if_splits)
  have S: "?S = map (\<lambda>j. (Suc j, chunks ! j, the (embedding_of w (chunks ! j)))) kept"
    unfolding assms(4) by (simp add: embedded_eq)
  from b show ?thesis
    unfolding S batch_of_def
    by (auto simp: chunk_id_def chunk_metadata_def o_def add.commute)
qed

theorem ingest_document_ids_witness:
  "load_document demo_world ''long.txt'' = Some (Some demo_text)
   \<and> filter (\<lambda>j. embedding_of demo_world (chunk_text demo_text 1200 150 ! j) \<noteq> None)
        [0..<length (chunk_text demo_text 1200 150)] = [0, 2]
   \<and> map (\<lambda>(es, ds, ms, ids). ids)
        (add_log (snd (ingest_document demo_world demo_state ''long.txt'' ''Aletheia's Notes'' ''Ref'')))
       = [[''Aletheia_s_Notes_chunk_1'', ''Aletheia_s_Notes_chunk_3'']]"
proof -
  let ?st' = "snd (ingest_document demo_world demo_state ''long.txt'' ''Aletheia's Notes'' ''Ref'')"
  have log: "add_log ?st' = add_log demo_state @
      [batch_of demo_world ''long.txt'' ''Aletheia's Notes'' ''Ref''
         (embedded demo_world 0 (chunk_text demo_text 1200 150))]"
    by (simp add: ingest_document_add_log[OF demo_collection demo_load_long demo_text_nonempty]
          demo_embedded_long demo_world_facts)
  obtain es ds ms ids where b: "batch_of demo_world ''long.txt'' ''Aletheia's Notes'' ''Ref''
         (embedded demo_world 0 (chunk_text demo_text 1200 150)) = (es, ds, ms, ids)"
    by (cases "batch_of demo_world ''long.txt'' ''Aletheia's Notes'' ''Ref''
         (embedded demo_world 0 (chunk_text demo_text 1200 150))") auto
  have kept: "filter (\<lambda>j. embedding_of demo_world (chunk_text demo_text 1200 150 ! j) \<noteq> None)
        [0..<length (chunk_text demo_text 1200 150)] = [0, 2]"
    by (simp add: demo_chunks_long demo_embedding_of upt_rec)
  from ingest_document_ids[OF demo_load_long log[unfolded b] refl refl, unfolded kept]
  have "ids = [''Aletheia_s_Notes_chunk_1'', ''Aletheia_s_Notes_chunk_3'']"
    by (simp add: demo_isalnum str_int_def str_nat.simps char_of_digits)
  with log b demo_load_long kept show ?thesis
    by (simp add: demo_state_facts)
qed

subsection \<open>Ingesting a document twice\<close>



subsection \<open>Interaction logging\<close>

text \<open>
  Claim C9, as amended. For every user text and assistant text: when the collection is
  initialised and the embedding of the formatted interaction succeeds, logging the
  interaction sends exactly that one text to the embedding endpoint and passes exactly
  one batch of one record to the store; the record's metadata has content type
  \<^verbatim>\<open>LiveInteraction\<close> and \<^verbatim>\<open>chunk_sequence_id\<close> 1, and when the store accepts the write the
  record is stored under the id made of the title and \<^verbatim>\<open>_chunk_1\<close>. When the embedding
  fails, no record is produced: the store is not called and the collection is as it was
  (one request was made if an API key is configured, none otherwise). When the collection
  is not initialised, nothing happens at all.
\<close>

theorem ingest_interaction_text_one_record:
  assumes "interaction_text = ''Interaction at '' @ now_strftime w (clock_reads st) ''%Y-%m-%d %H:%M:%S''
           @ '':\<newline>User: '' @ user_input @ ''\<newline>Aletheia: '' @ ai_response"
    and "unique_id = ''Interaction_'' @ now_strftime w (clock_reads st + 1) ''%Y%m%d_%H%M%S'' @ ''_chunk_1''"
    and "st' = snd (ingest_interaction_text w st user_input ai_response)"
  shows "(\<forall>c v. collection st = Some c \<and> embedding_of w interaction_text = Some v \<longrightarrow>
           embed_requests st' = embed_requests st @ [interaction_text] \<and>
           (\<exists>m. add_log st' = add_log st @ [([v], [interaction_text], [m], [unique_id])]
              \<and> map_of m ''content_type'' = Some (MStr ''LiveInteraction'')
              \<and> map_of m ''chunk_sequence_id'' = Some (MInt 1)
              \<and> (\<not> add_raises w ([v], [interaction_text], [m], [unique_id]) \<longrightarrow>
                   collection st' = Some (c(unique_id \<mapsto>
                     \<lparr>rec_embedding = v, rec_document = interaction_text, rec_metadata = m\<rparr>)))))
       \<and> (collection st \<noteq> None \<and> embedding_of w interaction_text = None \<longrightarrow>
            add_log st' = add_log st \<and> collection st' = collection st
            \<and> embed_requests st' = embed_requests st @
                 (if api_key w = None \<or> api_key w = Some [] then [] else [interaction_text]))
       \<and> (collection st = None \<longrightarrow> st' = st)"
proof (intro conjI allI impI)
  fix c v
  assume a: "collection st = Some c \<and> embedding_of w interaction_text = Some v"
  then have key: "\<not> (api_key w = None \<or> api_key w = Some [])"
    by (auto simp: embedding_of_def split: if_splits)
  from a key show "embed_requests st' = embed_requests st @ [interaction_text]"
    unfolding assms(3) assms(1) ingest_interaction_text_def
    by (simp add: Let_def get_openai_embedding_eq requested_def collection_add_def)
  from a key show "\<exists>m. add_log st' = add_log st @ [([v], [interaction_text], [m], [unique_id])]
              \<and> map_of m ''content_type'' = Some (MStr ''LiveInteraction'')
              \<and> map_of m ''chunk_sequence_id'' = Some (MInt 1)
              \<and> (\<not> add_raises w ([v], [interaction_text], [m], [unique_id]) \<longrightarrow>
                   collection st' = Some (c(unique_id \<mapsto>
                     \<lparr>rec_embedding = v, rec_document = interaction_text, rec_metadata = m\<rparr>)))"
    unfolding assms(3) assms(1) assms(2) ingest_interaction_text_def
    by (simp add: Let_def get_openai_embedding_eq requested_def collection_add_def upsert_def)
next
  assume a: "collection st \<noteq> None \<and> embedding_of w interaction_text = None"
  then obtain c where c: "collection st = Some c" by auto
  from a c show "add_log st' = add_log st" "collection st' = collection st"
    "embed_requests st' = embed_requests st @
       (if api_key w = None \<or> api_key w = Some [] then [] else [interaction_text])"
    unfolding assms(3) assms(1) ingest_interaction_text_def
    by (simp_all add: Let_def get_openai_embedding_eq requested_def)
next
  assume "collection st = None"
  then show "st' = st"
    unfolding assms(3) ingest_interaction_text_def by simp
qed

theorem ingest_interaction_text_one_record_witness:
  "collection demo_state = Some Map.empty
   \<and> embedding_of demo_world ''Interaction at 2025-01-02 03:04:05:\<newline>User: hi\<newline>Aletheia: hello''
       = Some ''In''
   \<and> embed_requests (snd (ingest_interaction_text demo_world demo_state ''hi'' ''hello''))
       = [''Interaction at 2025-01-02 03:04:05:\<newline>User: hi\<newline>Aletheia: hello'']
   \<and> map (\<lambda>(es, ds, ms, ids). ids)
         (add_log (snd (ingest_interaction_text demo_world demo_state ''hi'' ''hello'')))
       = [[''Interaction_20250102_030405_chunk_1'']]
   \<and> dom (the (collection (snd (ingest_interaction_text demo_world demo_state ''hi'' ''hello''))))
       = {''Interaction_20250102_030405_chunk_1''}
   \<and> embedding_of failing_world ''Interaction at 2025-01-02 03:04:05:\<newline>User: bye\<newline>Aletheia: see you''
       = None
   \<and> add_log (snd (ingest_interaction_text failing_world demo_state ''bye'' ''see you'')) = []
   \<and> collection (snd (ingest_interaction_text failing_world demo_state ''bye'' ''see you''))
       = Some Map.empty
   \<and> collection (demo_state\<lparr>collection := None\<rparr>) = None
   \<and> snd (ingest_interaction_text demo_world (demo_state\<lparr>collection := None\<rparr>) ''hi'' ''hello'')
       = demo_state\<lparr>collection := None\<rparr>"
proof -
  have ts: "\<And>k. now_strftime demo_world k ''%Y-%m-%d %H:%M:%S'' = ''2025-01-02 03:04:05''"
    "\<And>k. now_strftime demo_world k ''%Y%m%d_%H%M%S'' = ''20250102_030405''"
    "\<And>k. now_strftime failing_world k ''%Y-%m-%d %H:%M:%S'' = ''2025-01-02 03:04:05''"
    "\<And>b. add_raises demo_world b = False"
    "embed_requests demo_state = []" "add_log demo_state = []"
    by (simp_all add: demo_world_def demo_state_def failing_world_def)
  note T1 = ingest_interaction_text_one_record[where w = demo_world and st = demo_state
      and user_input = "''hi''" and ai_response = "''hello''", OF refl refl refl]
  note T2 = ingest_interaction_text_one_record[where w = failing_world and st = demo_state
      and user_input = "''bye''" and ai_response = "''see you''", OF refl refl refl]
  note T3 = ingest_interaction_text_one_record[where w = demo_world
      and st = "demo_state\<lparr>collection := None\<rparr>"
      and user_input = "''hi''" and ai_response = "''hello''", OF refl refl refl]
  from T1 have 1: "embed_requests (snd (ingest_interaction_text demo_world demo_state ''hi'' ''hello''))
       = [''Interaction at 2025-01-02 03:04:05:\<newline>User: hi\<newline>Aletheia: hello'']
     \<and> map (\<lambda>(es, ds, ms, ids). ids)
         (add_log (snd (ingest_interaction_text demo_world demo_state ''hi'' ''hello'')))
       = [[''Interaction_20250102_030405_chunk_1'']]
     \<and> dom (the (collection (snd (ingest_interaction_text demo_world demo_state ''hi'' ''hello''))))
       = {''Interaction_20250102_030405_chunk_1''}"
    by (auto simp: ts demo_collection demo_embedding_of split: if_splits)
  from T2 have 2: "add_log (snd (ingest_interaction_text failing_world demo_state ''bye'' ''see you'')) = []
     \<and> collection (snd (ingest_interaction_text failing_world demo_state ''bye'' ''see you''))
       = Some Map.empty"
    by (simp add: ts demo_collection failing_embedding_of)
  from T3 have 3: "snd (ingest_interaction_text demo_world (demo_state\<lparr>collection := None\<rparr>) ''hi'' ''hello'')
       = demo_state\<lparr>collection := None\<rparr>"
    by simp
  show ?thesis
    using 1 2 3 by (simp add: demo_collection demo_embedding_of failing_embedding_of)
qed

text \<open>
  With an embedding endpoint that fails, logging \<^verbatim>\<open>("hi", "hello")\<close> makes its one request,
  never calls the store and leaves the collection empty.
\<close>

theorem ingest_interaction_text_failure_counterexample:
  "collection demo_state = Some Map.empty
   \<and> embed_requests (snd (ingest_interaction_text failing_world demo_state ''hi'' ''hello''))
       = [''Interaction at 2025-01-02 03:04:05:\<newline>User: hi\<newline>Aletheia: hello'']
   \<and> add_log (snd (ingest_interaction_text failing_world demo_state ''hi'' ''hello'')) = []
   \<and> collection (snd (ingest_interaction_text failing_world demo_state ''hi'' ''hello''))
       = Some Map.empty"
  by (simp add: ingest_interaction_text_def get_openai_embedding_def failing_world_def
        demo_world_def demo_state_def)

end
